theory Spec2Isabelle
  imports Complex_Main
begin

section \<open>Distance calculations on PDB 3D coordinates (evcouplings/compare/distances.py)\<close>

text \<open>
  Floating-point distances are modelled as real numbers, atom indices as Python's unbounded
  integers (\<open>int\<close>), residue indices of the two \<open>range(N)\<close> loops as \<open>nat\<close>.
  Exceptions are values of the type \<open>error\<close>; every function that can raise returns
  \<open>error + 'a\<close> with \<open>Inl\<close> for the exception.
\<close>

datatype error =
    OutOfBounds
  | IndexError
  | KeyError string
  | AttributeError
  | TypeError
  | ValueError
  | FileNotFoundError
  | NotImplementedError

type_synonym xyz = "real \<times> real \<times> real"
type_synonym atom_range = "int \<times> int"
type_synonym matrix = "real list list"

subsection \<open>The kernel \<open>_distances\<close>\<close>

definition LARGE_DIST :: real where
  "LARGE_DIST = 1000000"

text \<open>\<open>np.sqrt(np.sum((coords_i[a_i] - coords_j[a_j]) ** 2))\<close> on two rows of an N x 3 array.\<close>

fun cur_dist :: "xyz \<Rightarrow> xyz \<Rightarrow> real" where
  "cur_dist (x1, y1, z1) (x2, y2, z2) = sqrt ((x1 - x2)\<^sup>2 + (y1 - y2)\<^sup>2 + (z1 - z2)\<^sup>2)"

text \<open>
  \<open>coords[a]\<close> inside the jit-compiled kernel: a negative index counts from the end; an index
  outside \<open>-N_a \<le> a < N_a\<close> is not checked by the compiled code and has no defined result,
  which the model reports as \<open>OutOfBounds\<close>.
\<close>

definition coord_at :: "xyz list \<Rightarrow> int \<Rightarrow> error + xyz" where
  "coord_at coords a =
     (let n = int (length coords); k = (if a < 0 then a + n else a)
      in if 0 \<le> k \<and> k < n then Inr (coords ! nat k) else Inl OutOfBounds)"

text \<open>Python's \<open>range(lo, hi)\<close> on integers.\<close>

definition py_range :: "int \<Rightarrow> int \<Rightarrow> int list" where
  "py_range lo hi = [lo..hi - 1]"

text \<open>
  \<open>dists[r, c]\<close> read and \<open>dists[r, c] = v\<close> write on the output matrix; an index outside the
  matrix is not checked either and is reported as \<open>OutOfBounds\<close>.
\<close>

definition mat_get :: "matrix \<Rightarrow> nat \<Rightarrow> nat \<Rightarrow> error + real" where
  "mat_get m r c =
     (if r < length m \<and> c < length (m ! r) then Inr (m ! r ! c) else Inl OutOfBounds)"

definition mat_set :: "matrix \<Rightarrow> nat \<Rightarrow> nat \<Rightarrow> real \<Rightarrow> error + matrix" where
  "mat_set m r c v =
     (if r < length m \<and> c < length (m ! r) then Inr (m[r := (m ! r)[c := v]])
      else Inl OutOfBounds)"

text \<open>\<open>np.zeros((N_i, N_j))\<close>.\<close>

definition zeros :: "nat \<Rightarrow> nat \<Rightarrow> matrix" where
  "zeros n_i n_j = replicate n_i (replicate n_j 0)"

text \<open>The loop \<open>for a_j in range(range_j[0], range_j[1] + 1)\<close>, threading \<open>min_dist\<close>.\<close>

fun loop_a_j :: "xyz list \<Rightarrow> xyz list \<Rightarrow> int \<Rightarrow> int list \<Rightarrow> real \<Rightarrow> error + real" where
  "loop_a_j coords_i coords_j a_i [] min_dist = Inr min_dist"
| "loop_a_j coords_i coords_j a_i (a_j # rest) min_dist =
     (case coord_at coords_i a_i of
        Inl e \<Rightarrow> Inl e
      | Inr p \<Rightarrow>
         (case coord_at coords_j a_j of
            Inl e \<Rightarrow> Inl e
          | Inr q \<Rightarrow> loop_a_j coords_i coords_j a_i rest (min min_dist (cur_dist p q))))"

text \<open>The loop \<open>for a_i in range(range_i[0], range_i[1] + 1)\<close>.\<close>

fun loop_a_i :: "xyz list \<Rightarrow> xyz list \<Rightarrow> int list \<Rightarrow> int list \<Rightarrow> real \<Rightarrow> error + real" where
  "loop_a_i coords_i coords_j [] as_j min_dist = Inr min_dist"
| "loop_a_i coords_i coords_j (a_i # rest) as_j min_dist =
     (case loop_a_j coords_i coords_j a_i as_j min_dist of
        Inl e \<Rightarrow> Inl e
      | Inr m \<Rightarrow> loop_a_i coords_i coords_j rest as_j m)"

text \<open>The body of the loop over \<open>j\<close>: one cell of the matrix.\<close>

definition cell ::
  "atom_range list \<Rightarrow> xyz list \<Rightarrow> atom_range list \<Rightarrow> xyz list \<Rightarrow> bool \<Rightarrow>
   matrix \<Rightarrow> nat \<Rightarrow> nat \<Rightarrow> error + matrix" where
  "cell residues_i coords_i residues_j coords_j symmetric dists i j =
     (if symmetric \<and> i \<ge> j then
        (case mat_get dists j i of
           Inl e \<Rightarrow> Inl e
         | Inr v \<Rightarrow> mat_set dists i j v)
      else
        (let range_i = residues_i ! i;
             range_j = residues_j ! j
         in case loop_a_i coords_i coords_j
                   (py_range (fst range_i) (snd range_i + 1))
                   (py_range (fst range_j) (snd range_j + 1)) LARGE_DIST of
              Inl e \<Rightarrow> Inl e
            | Inr min_dist \<Rightarrow> mat_set dists i j min_dist))"

text \<open>\<open>for j in range(N_j)\<close> and \<open>for i in range(N_i)\<close>, threading the matrix.\<close>

fun loop_j ::
  "atom_range list \<Rightarrow> xyz list \<Rightarrow> atom_range list \<Rightarrow> xyz list \<Rightarrow> bool \<Rightarrow>
   matrix \<Rightarrow> nat \<Rightarrow> nat list \<Rightarrow> error + matrix" where
  "loop_j residues_i coords_i residues_j coords_j symmetric dists i [] = Inr dists"
| "loop_j residues_i coords_i residues_j coords_j symmetric dists i (j # js) =
     (case cell residues_i coords_i residues_j coords_j symmetric dists i j of
        Inl e \<Rightarrow> Inl e
      | Inr dists' \<Rightarrow> loop_j residues_i coords_i residues_j coords_j symmetric dists' i js)"

fun loop_i ::
  "atom_range list \<Rightarrow> xyz list \<Rightarrow> atom_range list \<Rightarrow> xyz list \<Rightarrow> bool \<Rightarrow>
   matrix \<Rightarrow> nat list \<Rightarrow> error + matrix" where
  "loop_i residues_i coords_i residues_j coords_j symmetric dists [] = Inr dists"
| "loop_i residues_i coords_i residues_j coords_j symmetric dists (i # is) =
     (case loop_j residues_i coords_i residues_j coords_j symmetric dists i
             [0..<length residues_j] of
        Inl e \<Rightarrow> Inl e
      | Inr dists' \<Rightarrow> loop_i residues_i coords_i residues_j coords_j symmetric dists' is)"

definition distances ::
  "atom_range list \<Rightarrow> xyz list \<Rightarrow> atom_range list \<Rightarrow> xyz list \<Rightarrow> bool \<Rightarrow> error + matrix" where
  "distances residues_i coords_i residues_j coords_j symmetric =
     (let N_i = length residues_i;
          N_j = length residues_j;
          dists = zeros N_i N_j
      in loop_i residues_i coords_i residues_j coords_j symmetric dists [0..<N_i])"

subsection \<open>Tables and Python values\<close>

text \<open>
  A cell of a residue table, and an identifier passed to a lookup, is a Python integer, a
  Python string or the missing value \<open>nan\<close>. A \<open>pandas.DataFrame\<close> is its row labels and
  its columns in order.
\<close>

datatype pyval = IntV int | StrV string | NaV

record dataframe =
  df_index :: "pyval list"
  df_columns :: "(string \<times> pyval list) list"

text \<open>\<open>df.<name>.values\<close>: the column, or \<open>AttributeError\<close> when the table has none of that name.\<close>

definition column_values :: "dataframe \<Rightarrow> string \<Rightarrow> error + pyval list" where
  "column_values df name =
     (case map_of (df_columns df) name of
        None \<Rightarrow> Inl AttributeError
      | Some vs \<Rightarrow> Inr vs)"

text \<open>
  Python's \<open>str()\<close> on an identifier: decimal digits for an integer, a string unchanged,
  \<open>nan\<close> for the missing value.
\<close>

fun digits :: "nat \<Rightarrow> string" where
  "digits n =
     (if n < 10 then [''0123456789'' ! n]
      else digits (n div 10) @ [''0123456789'' ! (n mod 10)])"

definition str_int :: "int \<Rightarrow> string" where
  "str_int n = (if n < 0 then CHR ''-'' # digits (nat (- n)) else digits (nat n))"

fun py_str :: "pyval \<Rightarrow> string" where
  "py_str (IntV n) = str_int n"
| "py_str (StrV s) = s"
| "py_str NaV = ''nan''"

subsection \<open>The class \<open>DistanceMap\<close>\<close>

record distance_map =
  residues_i :: dataframe
  residues_j :: dataframe
  dist_matrix :: matrix
  symmetric :: bool
  id_map_i :: "pyval \<rightharpoonup> nat"
  id_map_j :: "pyval \<rightharpoonup> nat"

text \<open>The dict comprehension \<open>{id_: i for (i, id_) in enumerate(values)}\<close>: entries are stored
  in order, a later entry replacing an earlier one with the same key.\<close>

definition id_map_of :: "pyval list \<Rightarrow> (pyval \<rightharpoonup> nat)" where
  "id_map_of vals = fold (\<lambda>(i, ident) m. m(ident \<mapsto> i)) (enumerate 0 vals) Map.empty"

text \<open>\<open>DistanceMap.__init__\<close>.\<close>

definition DistanceMap_init ::
  "dataframe \<Rightarrow> dataframe \<Rightarrow> matrix \<Rightarrow> bool \<Rightarrow> error + distance_map" where
  "DistanceMap_init res_i res_j dists symm =
     (case column_values res_i ''id'' of
        Inl e \<Rightarrow> Inl e
      | Inr ids_i \<Rightarrow>
         (case column_values res_j ''id'' of
            Inl e \<Rightarrow> Inl e
          | Inr ids_j \<Rightarrow>
              Inr \<lparr> residues_i = res_i, residues_j = res_j, dist_matrix = dists,
                    symmetric = symm, id_map_i = id_map_of ids_i,
                    id_map_j = id_map_of ids_j \<rparr>))"

text \<open>
  A chain as \<open>from_coords\<close> reads it: the atom table \<open>.coords\<close> (one row per atom, with its
  row label, its \<open>residue_index\<close> and its coordinates) and the residue table \<open>.residues\<close>.
\<close>

record atom =
  atom_label :: int
  residue_index :: int
  atom_x :: real
  atom_y :: real
  atom_z :: real

record chain =
  chain_coords :: "atom list"
  chain_residues :: dataframe

text \<open>
  \<open>DistanceMap._extract_coords\<close>. \<open>reset_index\<close> turns the row labels into the column
  \<open>index\<close>; \<open>groupby("residue_index")\<close> orders the groups by their key, and
  \<open>first()\<close> and \<open>last()\<close> take the \<open>index\<close> of the first and of the last row of each group.
\<close>

definition group_range :: "atom list \<Rightarrow> int \<Rightarrow> atom_range option" where
  "group_range C k =
     (case filter (\<lambda>a. residue_index a = k) C of
        [] \<Rightarrow> None
      | a # rest \<Rightarrow> Some (atom_label a, atom_label (last (a # rest))))"

definition extract_coords :: "atom list \<Rightarrow> atom_range list \<times> xyz list" where
  "extract_coords C =
     (let xyz_coords = map (\<lambda>a. (atom_x a, atom_y a, atom_z a)) C;
          keys = sort (remdups (map residue_index C));
          atom_ranges = List.map_filter (group_range C) keys
      in (atom_ranges, xyz_coords))"

text \<open>\<open>DistanceMap.from_coords\<close>; \<open>None\<close> is the omitted \<open>chain_j\<close>.\<close>

definition from_coords :: "chain \<Rightarrow> chain option \<Rightarrow> error + distance_map" where
  "from_coords chain_i chain_j_opt =
     (let (ranges_i, coords_i) = extract_coords (chain_coords chain_i);
          (symm, chain_j, ranges_j, coords_j) =
            (case chain_j_opt of
               None \<Rightarrow> (True, chain_i, ranges_i, coords_i)
             | Some chain_j \<Rightarrow>
                 (let (ranges_j, coords_j) = extract_coords (chain_coords chain_j)
                  in (False, chain_j, ranges_j, coords_j)))
      in case distances ranges_i coords_i ranges_j coords_j symm of
           Inl e \<Rightarrow> Inl e
         | Inr dists \<Rightarrow> DistanceMap_init (chain_residues chain_i) (chain_residues chain_j) dists symm)"

text \<open>
  The result of a lookup: a distance, or the not-a-number sentinel \<open>np.nan\<close>.
\<close>

datatype dist_value = Dist real | NaN

text \<open>\<open>dist_matrix[a, b]\<close> outside the kernel: numpy checks the bounds and raises \<open>IndexError\<close>.\<close>

definition matrix_at :: "matrix \<Rightarrow> nat \<Rightarrow> nat \<Rightarrow> error + dist_value" where
  "matrix_at m a b =
     (if a < length m \<and> b < length (m ! a) then Inr (Dist (m ! a ! b)) else Inl IndexError)"

text \<open>\<open>DistanceMap.dist\<close>.\<close>

definition DistanceMap_dist :: "distance_map \<Rightarrow> pyval \<Rightarrow> pyval \<Rightarrow> bool \<Rightarrow> error + dist_value" where
  "DistanceMap_dist self i0 j0 raise_na =
     (let i = py_str i0; j = py_str j0
      in case id_map_i self (StrV i) of
           None \<Rightarrow>
             (if raise_na
              then Inl (KeyError (i @ '' not contained in first axis of distance map''))
              else Inr NaN)
         | Some index_i \<Rightarrow>
             (case id_map_j self (StrV j) of
                None \<Rightarrow>
                  (if raise_na
                   then Inl (KeyError (j @ '' not contained in second axis of distance map''))
                   else Inr NaN)
              | Some index_j \<Rightarrow> matrix_at (dist_matrix self) index_i index_j))"

text \<open>\<open>DistanceMap.__getitem__\<close>, on a pair of identifiers.\<close>

definition getitem :: "distance_map \<Rightarrow> pyval \<times> pyval \<Rightarrow> error + dist_value" where
  "getitem self identifiers = (case identifiers of (i, j) \<Rightarrow> DistanceMap_dist self i j True)"

text \<open>
  \<open>DistanceMap.contacts\<close> and \<open>DistanceMap.aggregate\<close>. Each returns the outcome of the call
  together with the map after the call. \<open>aggregate\<close> is declared without any parameter, not even
  \<open>self\<close>: \<open>aggregate n_args\<close> is the function called with \<open>n_args\<close> arguments. A call with at
  least one argument is rejected with \<open>TypeError\<close> before the body runs; a call with none
  reaches the \<open>raise\<close>. A call on an instance (\<open>aggregate_on\<close>) passes the instance as
  first argument.
\<close>

definition contacts ::
  "distance_map \<Rightarrow> real \<Rightarrow> real option \<Rightarrow> (error + unit) \<times> distance_map" where
  "contacts self max_dist min_dist = (Inl NotImplementedError, self)"

definition aggregate :: "nat \<Rightarrow> error + unit" where
  "aggregate n_args = (if n_args = 0 then Inl NotImplementedError else Inl TypeError)"

definition aggregate_on ::
  "distance_map \<Rightarrow> pyval list \<Rightarrow> (error + unit) \<times> distance_map" where
  "aggregate_on self args = (aggregate (Suc (length args)), self)"

subsection \<open>What the specification says a cell holds\<close>

text \<open>
  The distances of all atom pairs of two residues with in-range atom ranges, the minimum the
  kernel's running minimum reaches (it starts from \<open>LARGE_DIST\<close>), and the condition that
  every atom range lies inside the coordinate array.
\<close>

definition atom_dists :: "xyz list \<Rightarrow> xyz list \<Rightarrow> atom_range \<Rightarrow> atom_range \<Rightarrow> real set" where
  "atom_dists coords_i coords_j range_i range_j =
     (\<lambda>(a, b). cur_dist (coords_i ! nat a) (coords_j ! nat b)) `
       ({fst range_i..snd range_i} \<times> {fst range_j..snd range_j})"

definition cell_min :: "xyz list \<Rightarrow> xyz list \<Rightarrow> atom_range \<Rightarrow> atom_range \<Rightarrow> real" where
  "cell_min coords_i coords_j range_i range_j =
     Min (insert LARGE_DIST (atom_dists coords_i coords_j range_i range_j))"

definition ranges_ok :: "atom_range list \<Rightarrow> xyz list \<Rightarrow> bool" where
  "ranges_ok residues coords =
     (\<forall>r \<in> set residues. 0 \<le> fst r \<and> snd r < int (length coords))"

text \<open>The minimum Euclidean distance over all atom pairs of two residues.\<close>

definition min_atom_dist :: "xyz list \<Rightarrow> xyz list \<Rightarrow> atom_range \<Rightarrow> atom_range \<Rightarrow> real" where
  "min_atom_dist coords_i coords_j range_i range_j =
     Min (atom_dists coords_i coords_j range_i range_j)"

definition nonempty_ranges :: "atom_range list \<Rightarrow> bool" where
  "nonempty_ranges residues = (\<forall>r \<in> set residues. fst r \<le> snd r)"


subsection \<open>The loop invariant of the kernel\<close>

text \<open>
  \<open>final_val\<close> is the value a cell holds when the kernel returns; \<open>filled F n_i n_j D i j\<close>
  says that \<open>D\<close> is an \<open>n_i\<close> x \<open>n_j\<close> matrix in which the cells before \<open>(i, j)\<close> in row-major
  order hold \<open>F\<close> and the others still hold the initial zero.
\<close>

definition final_val ::
  "atom_range list \<Rightarrow> xyz list \<Rightarrow> atom_range list \<Rightarrow> xyz list \<Rightarrow> bool \<Rightarrow> nat \<Rightarrow> nat \<Rightarrow> real" where
  "final_val ri ci rj cj symm i j =
     (if symm \<and> j \<le> i then (if i = j then 0 else cell_min ci cj (ri ! j) (rj ! i))
      else cell_min ci cj (ri ! i) (rj ! j))"

definition filled :: "(nat \<Rightarrow> nat \<Rightarrow> real) \<Rightarrow> nat \<Rightarrow> nat \<Rightarrow> matrix \<Rightarrow> nat \<Rightarrow> nat \<Rightarrow> bool" where
  "filled F n_i n_j D i j \<longleftrightarrow>
     length D = n_i \<and> (\<forall>r<n_i. length (D ! r) = n_j) \<and>
     (\<forall>r<n_i. \<forall>c<n_j. D ! r ! c = (if r < i \<or> (r = i \<and> c < j) then F r c else 0))"

subsection \<open>The symmetric two-residue scenario of the specification\<close>

text \<open>
  Residue A has atoms at \<open>(0, 0, 0)\<close> and \<open>(1, 0, 0)\<close>, residue B one atom at \<open>(3, 0, 0)\<close>;
  \<open>scenario_map\<close> is the map the constructor builds from the kernel's matrix for them.
\<close>

definition scenario_ranges :: "atom_range list" where
  "scenario_ranges = [(0, 1), (2, 2)]"

definition scenario_coords :: "xyz list" where
  "scenario_coords = [(0, 0, 0), (1, 0, 0), (3, 0, 0)]"

definition scenario_residues :: dataframe where
  "scenario_residues = \<lparr> df_index = [IntV 0, IntV 1], df_columns = [(''id'', [StrV ''A'', StrV ''B''])] \<rparr>"

definition scenario_map :: distance_map where
  "scenario_map =
     \<lparr> residues_i = scenario_residues, residues_j = scenario_residues,
       dist_matrix = [[0, 2], [2, 0]], symmetric = True,
       id_map_i = id_map_of [StrV ''A'', StrV ''B''],
       id_map_j = id_map_of [StrV ''A'', StrV ''B''] \<rparr>"

definition scenario_chain :: chain where
  "scenario_chain =
     \<lparr> chain_coords =
         [\<lparr> atom_label = 0, residue_index = 1, atom_x = 0, atom_y = 0, atom_z = 0 \<rparr>,
          \<lparr> atom_label = 1, residue_index = 1, atom_x = 1, atom_y = 0, atom_z = 0 \<rparr>,
          \<lparr> atom_label = 2, residue_index = 2, atom_x = 3, atom_y = 0, atom_z = 0 \<rparr>],
       chain_residues = scenario_residues \<rparr>"

definition single_residue :: "string \<Rightarrow> dataframe" where
  "single_residue name = \<lparr> df_index = [IntV 0], df_columns = [(''id'', [StrV name])] \<rparr>"

definition single_atom_chain :: "xyz \<Rightarrow> string \<Rightarrow> chain" where
  "single_atom_chain p name =
     \<lparr> chain_coords =
         [\<lparr> atom_label = 0, residue_index = 1, atom_x = fst p, atom_y = fst (snd p),
            atom_z = snd (snd p) \<rparr>],
       chain_residues = single_residue name \<rparr>"

subsection \<open>A residue table with a duplicated identifier\<close>

text \<open>The identifier \<open>7\<close> is in rows 0 and 2 of the table.\<close>

definition duplicate_residues :: dataframe where
  "duplicate_residues =
     \<lparr> df_index = [IntV 0, IntV 1, IntV 2], df_columns = [(''id'', [StrV ''7'', StrV ''8'', StrV ''7''])] \<rparr>"

definition duplicate_matrix :: matrix where
  "duplicate_matrix = [[0, 1, 2], [1, 0, 3], [2, 3, 0]]"

subsection \<open>Files\<close>

text \<open>
  The two files of a stored map. The \<open>.csv\<close> file is the text table \<open>to_csv\<close> writes, kept
  column by column: the text of the row labels and, for every column, its name and the text
  of its fields. The \<open>.npy\<close> file holds the matrix as it is. The file system maps a path to
  the content of the file.
\<close>

record csv_file =
  csv_index :: "string list"
  csv_columns :: "(string \<times> string list) list"

datatype file_content = Csv csv_file | Npy matrix

type_synonym files = "string \<rightharpoonup> file_content"

text \<open>
  \<open>DataFrame.to_csv(index=True)\<close>: an integer is written in decimal, a string as it is, a
  missing value as the empty field.
\<close>

fun field_text :: "pyval \<Rightarrow> string" where
  "field_text (IntV n) = str_int n"
| "field_text (StrV s) = s"
| "field_text NaV = []"

definition to_csv :: "dataframe \<Rightarrow> csv_file" where
  "to_csv df =
     \<lparr> csv_index = map field_text (df_index df),
       csv_columns = map (\<lambda>(name, vs). (name, map field_text vs)) (df_columns df) \<rparr>"

text \<open>An integer literal: an optional minus sign and at least one decimal digit.\<close>

definition digit_val :: "char \<Rightarrow> nat option" where
  "digit_val c = map_of (zip ''0123456789'' [0, 1, 2, 3, 4, 5, 6, 7, 8, 9]) c"

fun parse_nat :: "string \<Rightarrow> nat \<Rightarrow> nat option" where
  "parse_nat [] acc = Some acc"
| "parse_nat (c # cs) acc =
     (case digit_val c of None \<Rightarrow> None | Some d \<Rightarrow> parse_nat cs (10 * acc + d))"

definition parse_int :: "string \<Rightarrow> int option" where
  "parse_int s =
     (case s of
        [] \<Rightarrow> None
      | c # cs \<Rightarrow>
          (if c = CHR ''-''
           then (if cs = [] then None else map_option (\<lambda>n. - int n) (parse_nat cs 0))
           else map_option int (parse_nat s 0)))"

text \<open>
  The types \<open>read_csv\<close> is asked for in its \<open>dtype\<close> argument, and what it makes of the text
  of one column. With \<open>str\<close> every non-empty field stays a string; with \<open>int\<close> every field
  must be an integer literal; without an entry the type is inferred: a column whose non-empty
  fields are all integer literals becomes numeric, any other column stays text. An empty field
  is a missing value. (Inference of floating-point and boolean columns is outside this model:
  such text is kept as strings.)
\<close>

datatype dtype = StrT | IntT

definition text_cell :: "string \<Rightarrow> pyval" where
  "text_cell f = (if f = [] then NaV else StrV f)"

definition numeric_cell :: "string \<Rightarrow> pyval" where
  "numeric_cell f = (case parse_int f of None \<Rightarrow> NaV | Some n \<Rightarrow> IntV n)"

definition read_column :: "(string \<times> dtype) list \<Rightarrow> string \<Rightarrow> string list \<Rightarrow> error + pyval list" where
  "read_column dtypes name texts =
     (case map_of dtypes name of
        Some StrT \<Rightarrow> Inr (map text_cell texts)
      | Some IntT \<Rightarrow>
          (if list_all (\<lambda>f. parse_int f \<noteq> None) texts
           then Inr (map numeric_cell texts) else Inl ValueError)
      | None \<Rightarrow>
          (let present = filter (\<lambda>f. f \<noteq> []) texts
           in if present \<noteq> [] \<and> list_all (\<lambda>f. parse_int f \<noteq> None) present
              then Inr (map numeric_cell texts)
              else Inr (map text_cell texts)))"

fun read_columns ::
  "(string \<times> dtype) list \<Rightarrow> (string \<times> string list) list \<Rightarrow>
   error + (string \<times> pyval list) list" where
  "read_columns dtypes [] = Inr []"
| "read_columns dtypes ((name, texts) # rest) =
     (case read_column dtypes name texts of
        Inl e \<Rightarrow> Inl e
      | Inr vs \<Rightarrow>
          (case read_columns dtypes rest of
             Inl e \<Rightarrow> Inl e
           | Inr cols \<Rightarrow> Inr ((name, vs) # cols)))"

text \<open>\<open>pd.read_csv(path, index_col=0, dtype=dtypes)\<close> on the content of a file.\<close>

definition read_csv :: "files \<Rightarrow> string \<Rightarrow> (string \<times> dtype) list \<Rightarrow> error + dataframe" where
  "read_csv fs path dtypes =
     (case fs path of
        None \<Rightarrow> Inl FileNotFoundError
      | Some (Npy m) \<Rightarrow> Inl ValueError
      | Some (Csv f) \<Rightarrow>
          (case read_column dtypes [] (csv_index f) of
             Inl e \<Rightarrow> Inl e
           | Inr labels \<Rightarrow>
               (case read_columns dtypes (csv_columns f) of
                  Inl e \<Rightarrow> Inl e
                | Inr cols \<Rightarrow> Inr \<lparr> df_index = labels, df_columns = cols \<rparr>)))"

text \<open>\<open>np.load(path)\<close>.\<close>

definition np_load :: "files \<Rightarrow> string \<Rightarrow> error + matrix" where
  "np_load fs path =
     (case fs path of
        None \<Rightarrow> Inl FileNotFoundError
      | Some (Csv f) \<Rightarrow> Inl ValueError
      | Some (Npy m) \<Rightarrow> Inr m)"

text \<open>
  The table operations the two methods use. \<open>res.loc[:, "axis"] = axis\<close> overwrites the
  column \<open>axis\<close> or adds it as the last one; \<open>append\<close> puts the rows of the second table under
  those of the first, a column that one table lacks being missing there;
  \<open>query("axis == 'i'")\<close> keeps the rows whose \<open>axis\<close> is that string.
\<close>

definition set_column :: "dataframe \<Rightarrow> string \<Rightarrow> pyval list \<Rightarrow> dataframe" where
  "set_column df name vs =
     (if name \<in> set (map fst (df_columns df))
      then df\<lparr> df_columns := map (\<lambda>(n, old). if n = name then (n, vs) else (n, old))
                                 (df_columns df) \<rparr>
      else df\<lparr> df_columns := df_columns df @ [(name, vs)] \<rparr>)"

definition add_axis :: "dataframe \<Rightarrow> string \<Rightarrow> dataframe" where
  "add_axis df axis = set_column df ''axis'' (replicate (length (df_index df)) (StrV axis))"

definition column_or_missing :: "dataframe \<Rightarrow> string \<Rightarrow> pyval list" where
  "column_or_missing df name =
     (case map_of (df_columns df) name of
        None \<Rightarrow> replicate (length (df_index df)) NaV
      | Some vs \<Rightarrow> vs)"

definition df_append :: "dataframe \<Rightarrow> dataframe \<Rightarrow> dataframe" where
  "df_append a b =
     (let names = map fst (df_columns a) @
                  filter (\<lambda>n. n \<notin> set (map fst (df_columns a))) (map fst (df_columns b))
      in \<lparr> df_index = df_index a @ df_index b,
           df_columns = map (\<lambda>n. (n, column_or_missing a n @ column_or_missing b n)) names \<rparr>)"

definition keep_rows :: "bool list \<Rightarrow> 'a list \<Rightarrow> 'a list" where
  "keep_rows keep xs = map snd (filter fst (zip keep xs))"

definition query_axis :: "dataframe \<Rightarrow> string \<Rightarrow> dataframe" where
  "query_axis df v =
     (let keep = map (\<lambda>c. c = StrV v) (column_or_missing df ''axis'')
      in \<lparr> df_index = keep_rows keep (df_index df),
           df_columns = map (\<lambda>(n, vs). (n, keep_rows keep vs)) (df_columns df) \<rparr>)"

definition drop_column :: "dataframe \<Rightarrow> string \<Rightarrow> dataframe" where
  "drop_column df name = df\<lparr> df_columns := filter (\<lambda>(n, vs). n \<noteq> name) (df_columns df) \<rparr>"

text \<open>The \<open>dtype\<close> argument of the \<open>read_csv\<close> call in \<open>from_file\<close>.\<close>

definition from_file_dtype :: "(string \<times> dtype) list" where
  "from_file_dtype = [(''seqres_id'', StrT), (''coord_id'', StrT), (''chain_index'', IntT)]"

text \<open>\<open>DistanceMap.from_file\<close>.\<close>

definition from_file :: "files \<Rightarrow> string \<Rightarrow> error + distance_map" where
  "from_file fs filename =
     (case read_csv fs (filename @ ''.csv'') from_file_dtype of
        Inl e \<Rightarrow> Inl e
      | Inr residues \<Rightarrow>
          (case np_load fs (filename @ ''.npy'') of
             Inl e \<Rightarrow> Inl e
           | Inr matrix \<Rightarrow>
               (if ''axis'' \<in> set (map fst (df_columns residues))
                then DistanceMap_init
                       (drop_column (query_axis residues ''i'') ''axis'')
                       (drop_column (query_axis residues ''j'') ''axis'') matrix False
                else DistanceMap_init residues residues matrix True)))"

text \<open>\<open>DistanceMap.to_file\<close>: the file system after the two writes.\<close>

definition to_file :: "distance_map \<Rightarrow> string \<Rightarrow> files \<Rightarrow> files" where
  "to_file self filename fs =
     (let residues =
            (if symmetric self then residues_i self
             else (let res_i = add_axis (residues_i self) ''i'';
                       res_j = add_axis (residues_j self) ''j''
                   in df_append res_i res_j))
      in fs(filename @ ''.csv'' \<mapsto> Csv (to_csv residues),
            filename @ ''.npy'' \<mapsto> Npy (dist_matrix self)))"

subsection \<open>A map whose identifiers are numerals\<close>

text \<open>
  \<open>numbered_map\<close> is the map the constructor builds on a table with the ids \<open>1\<close> and \<open>2\<close>,
  both strings; \<open>reloaded_map\<close> is the same map with the integers 1 and 2 in the column.
\<close>

definition numbered_residues :: dataframe where
  "numbered_residues =
     \<lparr> df_index = [IntV 0, IntV 1], df_columns = [(''id'', [StrV ''1'', StrV ''2''])] \<rparr>"

definition numbered_map :: distance_map where
  "numbered_map =
     \<lparr> residues_i = numbered_residues, residues_j = numbered_residues,
       dist_matrix = [[0, 2], [2, 0]], symmetric = True,
       id_map_i = id_map_of [StrV ''1'', StrV ''2''],
       id_map_j = id_map_of [StrV ''1'', StrV ''2''] \<rparr>"

definition reloaded_residues :: dataframe where
  "reloaded_residues =
     \<lparr> df_index = [IntV 0, IntV 1], df_columns = [(''id'', [IntV 1, IntV 2])] \<rparr>"

definition reloaded_map :: distance_map where
  "reloaded_map =
     \<lparr> residues_i = reloaded_residues, residues_j = reloaded_residues,
       dist_matrix = [[0, 2], [2, 0]], symmetric = True,
       id_map_i = id_map_of [IntV 1, IntV 2],
       id_map_j = id_map_of [IntV 1, IntV 2] \<rparr>"

section \<open>Properties\<close>

subsection \<open>The atom loops and the matrix loops\<close>

lemma coord_at_in_range:
  "0 \<le> a \<Longrightarrow> a < int (length cs) \<Longrightarrow> coord_at cs a = Inr (cs ! nat a)"
  by (simp add: coord_at_def)

lemma Min_insert_min:
  "finite S \<Longrightarrow> Min (insert (min a b) S) = Min (insert a (insert b (S::real set)))"
  by (cases "S = {}") (simp_all add: min.assoc)

lemma Min_insert_Min:
  assumes "finite A" "finite B"
  shows "Min (insert (Min (insert m A)) B) = Min (insert (m::real) (A \<union> B))"
proof (cases "B = {}")
  case True
  then show ?thesis by simp
next
  case False
  have "Min (insert m (A \<union> B)) = Min (insert m A \<union> B)" by simp
  also have "\<dots> = min (Min (insert m A)) (Min B)"
    using assms False by (intro Min_Un) simp_all
  also have "\<dots> = Min (insert (Min (insert m A)) B)"
    using assms False by simp
  finally show ?thesis by simp
qed

lemma fold_min_Min:
  "fold (\<lambda>b m. min m (f b)) bs (m::real) = Min (insert m (f ` set bs))"
proof (induction bs arbitrary: m)
  case Nil
  then show ?case by simp
next
  case (Cons b bs)
  have "Min (insert (min m (f b)) (f ` set bs)) = Min (insert m (insert (f b) (f ` set bs)))"
    by (simp add: Min_insert_min)
  with Cons show ?case by simp
qed

lemma loop_a_j_ok:
  assumes "0 \<le> a_i" "a_i < int (length coords_i)"
    and "\<forall>b \<in> set bs. 0 \<le> b \<and> b < int (length coords_j)"
  shows "loop_a_j coords_i coords_j a_i bs m =
           Inr (fold (\<lambda>b m. min m (cur_dist (coords_i ! nat a_i) (coords_j ! nat b))) bs m)"
  using assms(3)
proof (induction bs arbitrary: m)
  case Nil
  then show ?case by simp
next
  case (Cons b bs)
  then show ?case using assms(1,2) by (simp add: coord_at_in_range)
qed

lemma loop_a_i_ok:
  assumes "\<forall>a \<in> set as. 0 \<le> a \<and> a < int (length coords_i)"
    and "\<forall>b \<in> set bs. 0 \<le> b \<and> b < int (length coords_j)"
  shows "loop_a_i coords_i coords_j as bs m =
           Inr (Min (insert m ((\<lambda>(a, b). cur_dist (coords_i ! nat a) (coords_j ! nat b)) `
                                 (set as \<times> set bs))))"
  using assms(1)
proof (induction as arbitrary: m)
  case Nil
  then show ?case by simp
next
  case (Cons a as)
  let ?f = "\<lambda>(a, b). cur_dist (coords_i ! nat a) (coords_j ! nat b)"
  let ?m' = "Min (insert m ((\<lambda>b. ?f (a, b)) ` set bs))"
  have st: "loop_a_j coords_i coords_j a bs m = Inr ?m'"
    using Cons.prems assms(2) by (simp add: loop_a_j_ok fold_min_Min)
  have ih: "loop_a_i coords_i coords_j as bs ?m' = Inr (Min (insert ?m' (?f ` (set as \<times> set bs))))"
    using Cons by simp
  have split: "?f ` (set (a # as) \<times> set bs) = (\<lambda>b. ?f (a, b)) ` set bs \<union> ?f ` (set as \<times> set bs)"
    by auto
  have "Min (insert ?m' (?f ` (set as \<times> set bs)))
      = Min (insert m ((\<lambda>b. ?f (a, b)) ` set bs) \<union> ?f ` (set as \<times> set bs))"
    by (simp add: Min_insert_Min)
  then show ?case using st ih split by simp
qed

lemma set_py_range: "set (py_range lo (hi + 1)) = {lo..hi}"
  by (simp add: py_range_def)

lemma computed_cell:
  assumes "ranges_ok ri ci" "ranges_ok rj cj" "i < length ri" "j < length rj"
  shows "loop_a_i ci cj (py_range (fst (ri ! i)) (snd (ri ! i) + 1))
           (py_range (fst (rj ! j)) (snd (rj ! j) + 1)) LARGE_DIST
         = Inr (cell_min ci cj (ri ! i) (rj ! j))"
proof -
  have a: "\<forall>a \<in> set (py_range (fst (ri ! i)) (snd (ri ! i) + 1)). 0 \<le> a \<and> a < int (length ci)"
    using assms(1,3) by (auto simp: ranges_ok_def set_py_range dest!: nth_mem)
  have b: "\<forall>b \<in> set (py_range (fst (rj ! j)) (snd (rj ! j) + 1)). 0 \<le> b \<and> b < int (length cj)"
    using assms(2,4) by (auto simp: ranges_ok_def set_py_range dest!: nth_mem)
  show ?thesis
    by (simp add: loop_a_i_ok [OF a b] cell_min_def atom_dists_def set_py_range)
qed

lemma mat_set_filled:
  assumes "filled F n_i n_j D i j" "i < n_i" "j < n_j" "v = F i j"
  shows "\<exists>D'. mat_set D i j v = Inr D' \<and> filled F n_i n_j D' i (Suc j)"
proof -
  let ?D' = "D[i := (D ! i)[j := v]]"
  have len: "length D = n_i" "\<forall>r<n_i. length (D ! r) = n_j"
    using assms(1) by (simp_all add: filled_def)
  have set: "mat_set D i j v = Inr ?D'"
    using len assms(2,3) by (simp add: mat_set_def)
  have "filled F n_i n_j ?D' i (Suc j)"
    unfolding filled_def
  proof (intro conjI allI impI)
    show "length ?D' = n_i" using len by simp
  next
    fix r assume "r < n_i"
    then show "length (?D' ! r) = n_j" using len by (cases "r = i") simp_all
  next
    fix r c assume rc: "r < n_i" "c < n_j"
    have old: "D ! r ! c = (if r < i \<or> (r = i \<and> c < j) then F r c else 0)"
      using assms(1) rc by (simp add: filled_def)
    show "?D' ! r ! c = (if r < i \<or> (r = i \<and> c < Suc j) then F r c else 0)"
    proof (cases "r = i")
      case True
      then show ?thesis using old len rc assms(2,3,4)
        by (cases "c = j") (auto simp: less_Suc_eq)
    next
      case False
      then show ?thesis using old len rc by simp
    qed
  qed
  with set show ?thesis by blast
qed

lemma cell_filled:
  assumes ok: "ranges_ok ri ci" "ranges_ok rj cj"
    and sq: "symm \<longrightarrow> length ri \<le> length rj"
    and inv: "filled (final_val ri ci rj cj symm) (length ri) (length rj) D i j"
    and ij: "i < length ri" "j < length rj"
  shows "\<exists>D'. cell ri ci rj cj symm D i j = Inr D' \<and>
           filled (final_val ri ci rj cj symm) (length ri) (length rj) D' i (Suc j)"
proof (cases "symm \<and> j \<le> i")
  case True
  have len: "length D = length ri" "\<forall>r<length ri. length (D ! r) = length rj"
    using inv by (simp_all add: filled_def)
  have ji: "j < length ri" "i < length rj" using True ij sq by simp_all
  have get: "mat_get D j i = Inr (D ! j ! i)"
    using len ji by (simp add: mat_get_def)
  have "D ! j ! i = (if j < i \<or> (j = i \<and> i < j) then final_val ri ci rj cj symm j i else 0)"
    using inv ji by (simp add: filled_def)
  then have val: "D ! j ! i = final_val ri ci rj cj symm i j"
    using True by (auto simp: final_val_def)
  from mat_set_filled [OF inv ij val]
  show ?thesis using True get by (simp add: cell_def)
next
  case False
  have val: "cell_min ci cj (ri ! i) (rj ! j) = final_val ri ci rj cj symm i j"
    using False by (auto simp: final_val_def)
  from mat_set_filled [OF inv ij val]
  show ?thesis using False computed_cell [OF ok ij] by (auto simp: cell_def)
qed

lemma loop_j_filled:
  assumes ok: "ranges_ok ri ci" "ranges_ok rj cj"
    and sq: "symm \<longrightarrow> length ri \<le> length rj"
    and i: "i < length ri"
  shows "j \<le> length rj \<Longrightarrow>
         filled (final_val ri ci rj cj symm) (length ri) (length rj) D i j \<Longrightarrow>
         \<exists>D'. loop_j ri ci rj cj symm D i [j..<length rj] = Inr D' \<and>
           filled (final_val ri ci rj cj symm) (length ri) (length rj) D' i (length rj)"
proof (induction "length rj - j" arbitrary: j D)
  case 0
  then show ?case by simp
next
  case (Suc k)
  then have j: "j < length rj" by simp
  from cell_filled [OF ok sq Suc.prems(2) i j]
  obtain D1 where D1: "cell ri ci rj cj symm D i j = Inr D1"
    "filled (final_val ri ci rj cj symm) (length ri) (length rj) D1 i (Suc j)" by blast
  have "k = length rj - Suc j" using Suc.hyps(2) by simp
  from Suc.hyps(1) [OF this _ D1(2)] j
  obtain D' where "loop_j ri ci rj cj symm D1 i [Suc j..<length rj] = Inr D'"
    "filled (final_val ri ci rj cj symm) (length ri) (length rj) D' i (length rj)" by auto
  then show ?case using D1(1) j by (simp add: upt_conv_Cons)
qed

lemma filled_next_row: "filled F n_i n_j D i n_j \<Longrightarrow> filled F n_i n_j D (Suc i) 0"
  by (auto simp: filled_def less_Suc_eq)

lemma loop_i_filled:
  assumes ok: "ranges_ok ri ci" "ranges_ok rj cj"
    and sq: "symm \<longrightarrow> length ri \<le> length rj"
  shows "i \<le> length ri \<Longrightarrow>
         filled (final_val ri ci rj cj symm) (length ri) (length rj) D i 0 \<Longrightarrow>
         \<exists>D'. loop_i ri ci rj cj symm D [i..<length ri] = Inr D' \<and>
           filled (final_val ri ci rj cj symm) (length ri) (length rj) D' (length ri) 0"
proof (induction "length ri - i" arbitrary: i D)
  case 0
  then show ?case by simp
next
  case (Suc k)
  then have i: "i < length ri" by simp
  from loop_j_filled [OF ok sq i _ Suc.prems(2)]
  obtain D1 where D1: "loop_j ri ci rj cj symm D i [0..<length rj] = Inr D1"
    "filled (final_val ri ci rj cj symm) (length ri) (length rj) D1 i (length rj)" by auto
  have "k = length ri - Suc i" using Suc.hyps(2) by simp
  from Suc.hyps(1) [OF this _ filled_next_row [OF D1(2)]] i
  obtain D' where "loop_i ri ci rj cj symm D1 [Suc i..<length ri] = Inr D'"
    "filled (final_val ri ci rj cj symm) (length ri) (length rj) D' (length ri) 0" by auto
  then show ?case using D1(1) i by (simp add: upt_conv_Cons)
qed

lemma filled_zeros: "filled F n_i n_j (zeros n_i n_j) 0 0"
  by (simp add: filled_def zeros_def)

lemma distances_final:
  assumes "ranges_ok ri ci" "ranges_ok rj cj" "symm \<longrightarrow> length ri \<le> length rj"
  shows "\<exists>D. distances ri ci rj cj symm = Inr D \<and> length D = length ri \<and>
           (\<forall>r<length ri. length (D ! r) = length rj) \<and>
           (\<forall>r<length ri. \<forall>c<length rj. D ! r ! c = final_val ri ci rj cj symm r c)"
proof -
  from loop_i_filled [where i = 0, OF assms _ filled_zeros]
  obtain D where D: "loop_i ri ci rj cj symm (zeros (length ri) (length rj)) [0..<length ri] = Inr D"
    "filled (final_val ri ci rj cj symm) (length ri) (length rj) D (length ri) 0" by auto
  from D(2) have "length D = length ri \<and>
           (\<forall>r<length ri. length (D ! r) = length rj) \<and>
           (\<forall>r<length ri. \<forall>c<length rj. D ! r ! c = final_val ri ci rj cj symm r c)"
    by (simp add: filled_def)
  with D(1) show ?thesis by (simp add: distances_def)
qed

subsection \<open>Distances between atoms\<close>

lemma cur_dist_nonneg: "0 \<le> cur_dist p q"
  by (cases p; cases q) simp

lemma cur_dist_self: "cur_dist p p = 0"
  by (cases p) simp

lemma cur_dist_commute: "cur_dist p q = cur_dist q p"
  by (cases p; cases q) (simp add: power2_commute)

lemma finite_atom_dists: "finite (atom_dists ci cj r_i r_j)"
  by (simp add: atom_dists_def)

lemma atom_dists_nonempty:
  "fst r_i \<le> snd r_i \<Longrightarrow> fst r_j \<le> snd r_j \<Longrightarrow> atom_dists ci cj r_i r_j \<noteq> {}"
  by (simp add: atom_dists_def)

lemma atom_dists_swap: "atom_dists c c r s \<subseteq> atom_dists c c s r"
proof
  fix d assume "d \<in> atom_dists c c r s"
  then obtain a b where ab: "a \<in> {fst r..snd r}" "b \<in> {fst s..snd s}"
    and d: "d = cur_dist (c ! nat a) (c ! nat b)"
    by (auto simp: atom_dists_def)
  from d have "d = cur_dist (c ! nat b) (c ! nat a)"
    by (simp add: cur_dist_commute [of "c ! nat a"])
  with ab show "d \<in> atom_dists c c s r"
    unfolding atom_dists_def by (intro image_eqI [of _ _ "(b, a)"]) simp_all
qed

lemma atom_dists_commute: "atom_dists c c r_i r_j = atom_dists c c r_j r_i"
  using atom_dists_swap [of c r_i r_j] atom_dists_swap [of c r_j r_i] by blast

lemma cell_min_commute: "cell_min c c r_i r_j = cell_min c c r_j r_i"
  by (simp add: cell_min_def atom_dists_commute)

lemma cell_min_min:
  assumes "fst r_i \<le> snd r_i" "fst r_j \<le> snd r_j"
  shows "cell_min ci cj r_i r_j = min LARGE_DIST (min_atom_dist ci cj r_i r_j)"
  using atom_dists_nonempty [OF assms] finite_atom_dists
  by (simp add: cell_min_def min_atom_dist_def)

lemma min_atom_dist_self:
  assumes "fst r \<le> snd r"
  shows "min_atom_dist c c r r = 0"
proof -
  have "(0::real) \<in> atom_dists c c r r"
    using assms by (auto simp: atom_dists_def image_iff cur_dist_self intro!: bexI [of _ "fst r"])
  moreover have "\<forall>d \<in> atom_dists c c r r. 0 \<le> d"
    by (auto simp: atom_dists_def cur_dist_nonneg)
  ultimately show ?thesis
    unfolding min_atom_dist_def using finite_atom_dists
    by (intro Min_eqI) auto
qed

lemma final_val_symmetric:
  "final_val r c r c True i j = final_val r c r c True j i"
  by (auto simp: final_val_def cell_min_commute)

lemma sqrt_16: "sqrt 16 = 4"
  using real_sqrt_abs [of 4] by simp

lemma sqrt_2000000: "sqrt 4000000000000 = 2000000"
  using real_sqrt_abs [of 2000000] by simp

subsection \<open>The asymmetric kernel\<close>

text \<open>
  C2 (amended). For a call of the kernel with \<open>symmetric=False\<close>, atom ranges inside the
  coordinate arrays and at least one atom in every residue, the call returns an
  \<open>N_i\<close> x \<open>N_j\<close> matrix, and every entry \<open>D[i, j]\<close> whose residues have an atom pair no
  farther apart than 1,000,000 equals the minimum Euclidean distance over all atom pairs
  \<open>(a, b)\<close> with \<open>a\<close> in the atom range of residue \<open>i\<close> and \<open>b\<close> in that of residue \<open>j\<close>.
\<close>

theorem distances_asymmetric_min:
  assumes "ranges_ok ri ci" "ranges_ok rj cj"
    and "nonempty_ranges ri" "nonempty_ranges rj"
    and "i < length ri" "j < length rj"
    and "min_atom_dist ci cj (ri ! i) (rj ! j) \<le> 1000000"
  shows "\<exists>D. distances ri ci rj cj False = Inr D \<and> length D = length ri \<and>
           length (D ! i) = length rj \<and>
           D ! i ! j = min_atom_dist ci cj (ri ! i) (rj ! j)"
proof -
  from distances_final [OF assms(1,2), of False]
  obtain D where D: "distances ri ci rj cj False = Inr D" "length D = length ri"
    "\<forall>r<length ri. length (D ! r) = length rj"
    "\<forall>r<length ri. \<forall>c<length rj. D ! r ! c = final_val ri ci rj cj False r c"
    by auto
  have ne: "fst (ri ! i) \<le> snd (ri ! i)" "fst (rj ! j) \<le> snd (rj ! j)"
    using assms(3-6) by (auto simp: nonempty_ranges_def)
  have "D ! i ! j = cell_min ci cj (ri ! i) (rj ! j)"
    using D(4) assms(5,6) by (simp add: final_val_def)
  also have "\<dots> = min_atom_dist ci cj (ri ! i) (rj ! j)"
    using assms(7) by (simp add: cell_min_min [OF ne] LARGE_DIST_def)
  finally show ?thesis using D assms(5) by auto
qed

text \<open>
  The asymmetric two-chain scenario: one residue at \<open>(0, 0, 0)\<close> on the first axis and one at
  \<open>(0, 0, 4)\<close> on the second give the single entry 4.
\<close>

theorem distances_asymmetric_min_witness:
  "ranges_ok [(0, 0)] [(0, 0, 0)] \<and> ranges_ok [(0, 0)] [(0, 0, 4)] \<and>
   nonempty_ranges [(0, 0)] \<and>
   min_atom_dist [(0, 0, 0)] [(0, 0, 4)] (0, 0) (0, 0) = 4 \<and>
   distances [(0, 0)] [(0, 0, 0)] [(0, 0)] [(0, 0, 4)] False = Inr [[4]]"
proof -
  have h: "ranges_ok [(0, 0)] [(0, 0, 0)]" "ranges_ok [(0, 0)] [(0, 0, 4)]"
    "nonempty_ranges [(0, 0)]"
    by (simp_all add: ranges_ok_def nonempty_ranges_def)
  have m: "min_atom_dist [(0, 0, 0)] [(0, 0, 4)] (0, 0) (0, 0) = 4"
    by (simp add: min_atom_dist_def atom_dists_def sqrt_16)
  have "\<exists>D. distances [(0, 0)] [(0, 0, 0)] [(0, 0)] [(0, 0, 4)] False = Inr D \<and>
          length D = 1 \<and> length (D ! 0) = 1 \<and> D ! 0 ! 0 = 4"
    using distances_asymmetric_min [OF h(1) h(2) h(3) h(3), of 0 0] m by simp
  then obtain D where D: "distances [(0, 0)] [(0, 0, 0)] [(0, 0)] [(0, 0, 4)] False = Inr D"
    "length D = 1" "length (D ! 0) = 1" "D ! 0 ! 0 = 4" by blast
  have "D = [[4]]"
    using D(2-4) by (cases D; cases "hd D") (auto simp: length_Suc_conv)
  with D(1) h m show ?thesis by simp
qed

text \<open>
  Without the bound the equality fails: two atoms 2,000,000 apart give the entry 1,000,000,
  the initial value of the running minimum.
\<close>

theorem distances_asymmetric_far_counterexample:
  "ranges_ok [(0, 0)] [(0, 0, 0)] \<and> ranges_ok [(0, 0)] [(2000000, 0, 0)] \<and>
   nonempty_ranges [(0, 0)] \<and>
   distances [(0, 0)] [(0, 0, 0)] [(0, 0)] [(2000000, 0, 0)] False = Inr [[1000000]] \<and>
   min_atom_dist [(0, 0, 0)] [(2000000, 0, 0)] (0, 0) (0, 0) = 2000000"
  by (simp add: ranges_ok_def nonempty_ranges_def min_atom_dist_def atom_dists_def
      sqrt_2000000 distances_def zeros_def cell_def py_range_def coord_at_def mat_set_def
      LARGE_DIST_def)

subsection \<open>The initial value of the running minimum\<close>

text \<open>
  C10. The running minimum of a cell starts at 1,000,000: every entry the kernel computes from
  atom pairs (all entries when \<open>symmetric=False\<close>, the entries above the diagonal when
  \<open>symmetric=True\<close>) is the minimum of 1,000,000 and the atom-pair distances, hence
  \<open>min(true minimum, 1,000,000)\<close> when both residues have an atom, and exactly 1,000,000 when
  all their atom pairs are farther apart than 1,000,000.
\<close>

theorem distances_running_min:
  assumes "ranges_ok ri ci" "ranges_ok rj cj"
    and "symm \<longrightarrow> length ri \<le> length rj"
    and "i < length ri" "j < length rj"
    and "\<not> symm \<or> i < j"
  shows "\<exists>D. distances ri ci rj cj symm = Inr D \<and>
           D ! i ! j = Min (insert 1000000 (atom_dists ci cj (ri ! i) (rj ! j))) \<and>
           (fst (ri ! i) \<le> snd (ri ! i) \<and> fst (rj ! j) \<le> snd (rj ! j) \<longrightarrow>
              D ! i ! j = min (min_atom_dist ci cj (ri ! i) (rj ! j)) 1000000) \<and>
           ((\<forall>d \<in> atom_dists ci cj (ri ! i) (rj ! j). 1000000 < d) \<longrightarrow> D ! i ! j = 1000000)"
proof -
  let ?S = "atom_dists ci cj (ri ! i) (rj ! j)"
  from distances_final [OF assms(1-3)]
  obtain D where D: "distances ri ci rj cj symm = Inr D"
    "\<forall>r<length ri. \<forall>c<length rj. D ! r ! c = final_val ri ci rj cj symm r c"
    by auto
  have v: "D ! i ! j = cell_min ci cj (ri ! i) (rj ! j)"
    using D(2) assms(4-6) by (auto simp: final_val_def)
  then have a: "D ! i ! j = Min (insert 1000000 ?S)"
    by (simp add: cell_min_def LARGE_DIST_def)
  have b: "D ! i ! j = min (min_atom_dist ci cj (ri ! i) (rj ! j)) 1000000"
    if "fst (ri ! i) \<le> snd (ri ! i) \<and> fst (rj ! j) \<le> snd (rj ! j)"
    using that v cell_min_min [of "ri ! i" "rj ! j" ci cj]
    by (simp add: LARGE_DIST_def min.commute)
  have c: "D ! i ! j = 1000000" if far: "\<forall>d \<in> ?S. 1000000 < d"
  proof -
    have "Min (insert 1000000 ?S) = 1000000"
      using far finite_atom_dists [of ci cj "ri ! i" "rj ! j"]
      by (intro Min_eqI) (auto intro: less_imp_le)
    with a show ?thesis by simp
  qed
  from D(1) a b c show ?thesis by blast
qed

text \<open>Two atoms 2,000,000 apart: the entry is 1,000,000.\<close>

theorem distances_running_min_witness:
  "ranges_ok [(0, 0)] [(0, 0, 0)] \<and> ranges_ok [(0, 0)] [(2000000, 0, 0)] \<and>
   atom_dists [(0, 0, 0)] [(2000000, 0, 0)] (0, 0) (0, 0) = {2000000} \<and>
   (\<exists>D. distances [(0, 0)] [(0, 0, 0)] [(0, 0)] [(2000000, 0, 0)] False = Inr D \<and>
      D ! 0 ! 0 = 1000000)"
proof -
  have h: "ranges_ok [(0, 0)] [(0, 0, 0)]" "ranges_ok [(0, 0)] [(2000000, 0, 0)]"
    by (simp_all add: ranges_ok_def)
  have far: "atom_dists [(0, 0, 0)] [(2000000, 0, 0)] (0, 0) (0, 0) = {2000000}"
    by (simp add: atom_dists_def sqrt_2000000)
  from distances_running_min [OF h, of False 0 0] far
  have "\<exists>D. distances [(0, 0)] [(0, 0, 0)] [(0, 0)] [(2000000, 0, 0)] False = Inr D \<and>
      D ! 0 ! 0 = 1000000"
    by simp blast
  with h far show ?thesis by blast
qed

subsection \<open>The symmetric kernel\<close>

lemma scenario_distances:
  "distances scenario_ranges scenario_coords scenario_ranges scenario_coords True =
     Inr [[0, 2], [2, 0]]"
  by (simp add: scenario_ranges_def scenario_coords_def distances_def zeros_def cell_def
      py_range_def coord_at_def mat_get_def mat_set_def LARGE_DIST_def upto.simps upt_rec)

lemma scenario_ranges_ok: "ranges_ok scenario_ranges scenario_coords"
  by (simp add: ranges_ok_def scenario_ranges_def scenario_coords_def)

lemma scenario_init:
  "DistanceMap_init scenario_residues scenario_residues [[0, 2], [2, 0]] True = Inr scenario_map"
  by (simp add: DistanceMap_init_def column_values_def scenario_residues_def scenario_map_def)

lemma scenario_id_map:
  "id_map_of [StrV ''A'', StrV ''B''] (StrV ''A'') = Some 0"
  "id_map_of [StrV ''A'', StrV ''B''] (StrV ''B'') = Some 1"
  "id_map_of [StrV ''A'', StrV ''B''] (StrV ''Z'') = None"
  by (simp_all add: id_map_of_def enumerate_eq_zip upt_rec)

text \<open>
  C1 (amended). For a symmetric distance map built by the kernel (both axes the same chain,
  atom ranges inside the coordinate array), every diagonal entry \<open>dist(i, i)\<close> is 0: the cell
  is copied from itself and keeps the zero initial value of the output matrix. For a residue
  with at least one atom this is the minimum Euclidean distance over all pairs \<open>(a, b)\<close> of its
  atoms, the pairs \<open>(a, a)\<close> included.
\<close>

theorem symmetric_diagonal_zero:
  assumes "ranges_ok r c" "i < length r"
  shows "\<exists>D. distances r c r c True = Inr D \<and> D ! i ! i = 0 \<and>
           (fst (r ! i) \<le> snd (r ! i) \<longrightarrow> D ! i ! i = min_atom_dist c c (r ! i) (r ! i))"
proof -
  from distances_final [OF assms(1) assms(1), of True]
  obtain D where D: "distances r c r c True = Inr D"
    "\<forall>a<length r. \<forall>b<length r. D ! a ! b = final_val r c r c True a b"
    by auto
  have "D ! i ! i = 0" using D(2) assms(2) by (simp add: final_val_def)
  with D(1) show ?thesis by (auto simp: min_atom_dist_self)
qed

text \<open>In the scenario the diagonal entry of residue A is 0.\<close>

theorem symmetric_diagonal_zero_witness:
  "ranges_ok scenario_ranges scenario_coords \<and>
   distances scenario_ranges scenario_coords scenario_ranges scenario_coords True =
     Inr [[0, 2], [2, 0]] \<and>
   [[0, 2], [2, 0 :: real]] ! 0 ! 0 = 0 \<and>
   min_atom_dist scenario_coords scenario_coords (scenario_ranges ! 0) (scenario_ranges ! 0) = 0"
proof -
  have len: "0 < length scenario_ranges" by (simp add: scenario_ranges_def)
  have ne: "fst (scenario_ranges ! 0) \<le> snd (scenario_ranges ! 0)"
    by (simp add: scenario_ranges_def)
  from symmetric_diagonal_zero [OF scenario_ranges_ok len] ne scenario_distances
  have "min_atom_dist scenario_coords scenario_coords (scenario_ranges ! 0)
          (scenario_ranges ! 0) = 0"
    by auto
  with scenario_ranges_ok scenario_distances show ?thesis by simp
qed

text \<open>
  The two atoms of residue A are at distance 1, and the diagonal entry of A is 0, not 1.
\<close>

theorem symmetric_diagonal_counterexample:
  "ranges_ok scenario_ranges scenario_coords \<and>
   distances scenario_ranges scenario_coords scenario_ranges scenario_coords True =
     Inr [[0, 2], [2, 0]] \<and>
   cur_dist (scenario_coords ! 0) (scenario_coords ! 1) = 1 \<and>
   [[0, 2], [2, 0 :: real]] ! 0 ! 0 \<noteq> 1"
  using scenario_ranges_ok scenario_distances by (simp add: scenario_coords_def)

lemma matrix_at_symmetric:
  assumes "length D = n" "\<forall>a<n. length (D ! a) = n" "\<forall>a<n. \<forall>b<n. D ! a ! b = D ! b ! a"
  shows "matrix_at D a b = matrix_at D b a"
  using assms by (auto simp: matrix_at_def)

lemma init_same_table:
  assumes "DistanceMap_init tbl tbl D s = Inr dm"
  shows "id_map_j dm = id_map_i dm" "dist_matrix dm = D" "symmetric dm = s"
    "residues_i dm = tbl" "residues_j dm = tbl"
  using assms by (auto simp: DistanceMap_init_def split: sum.splits)

text \<open>
  C3. The matrix the kernel returns with \<open>symmetric=True\<close> on one chain is symmetric, and in
  a map built from it on one residue table \<open>dist(i, j)\<close> and \<open>dist(j, i)\<close> agree for all
  identifiers \<open>i\<close>, \<open>j\<close> that the table knows.
\<close>

theorem symmetric_map_symmetric:
  assumes "ranges_ok r c"
  shows "\<exists>D. distances r c r c True = Inr D \<and>
           (\<forall>a<length r. \<forall>b<length r. D ! a ! b = D ! b ! a) \<and>
           (\<forall>tbl dm i j raise_na.
              DistanceMap_init tbl tbl D True = Inr dm \<and>
              id_map_i dm (StrV (py_str i)) \<noteq> None \<and> id_map_i dm (StrV (py_str j)) \<noteq> None
              \<longrightarrow> DistanceMap_dist dm i j raise_na = DistanceMap_dist dm j i raise_na)"
proof -
  from distances_final [OF assms assms, of True]
  obtain D where D: "distances r c r c True = Inr D" "length D = length r"
    "\<forall>a<length r. length (D ! a) = length r"
    "\<forall>a<length r. \<forall>b<length r. D ! a ! b = final_val r c r c True a b"
    by auto
  have sym: "\<forall>a<length r. \<forall>b<length r. D ! a ! b = D ! b ! a"
    using D(4) final_val_symmetric [of r c] by simp
  have "DistanceMap_dist dm i j raise_na = DistanceMap_dist dm j i raise_na"
    if "DistanceMap_init tbl tbl D True = Inr dm"
      and "id_map_i dm (StrV (py_str i)) \<noteq> None" "id_map_i dm (StrV (py_str j)) \<noteq> None"
    for tbl dm i j raise_na
  proof -
    from that(2,3) obtain a b where ab: "id_map_i dm (StrV (py_str i)) = Some a"
      "id_map_i dm (StrV (py_str j)) = Some b" by auto
    have eq: "id_map_j dm = id_map_i dm" "dist_matrix dm = D"
      using init_same_table [OF that(1)] by simp_all
    show ?thesis
      using ab eq matrix_at_symmetric [OF D(2) D(3) sym, of a b]
      by (simp add: DistanceMap_dist_def)
  qed
  with D(1) sym show ?thesis by blast
qed

text \<open>In the scenario \<open>dist(A, B)\<close> and \<open>dist(B, A)\<close> are both 2.\<close>

theorem symmetric_map_symmetric_witness:
  "ranges_ok scenario_ranges scenario_coords \<and>
   distances scenario_ranges scenario_coords scenario_ranges scenario_coords True =
     Inr [[0, 2], [2, 0]] \<and>
   DistanceMap_init scenario_residues scenario_residues [[0, 2], [2, 0]] True =
     Inr scenario_map \<and>
   DistanceMap_dist scenario_map (StrV ''A'') (StrV ''B'') True = Inr (Dist 2) \<and>
   DistanceMap_dist scenario_map (StrV ''B'') (StrV ''A'') True = Inr (Dist 2)"
proof -
  have ab: "DistanceMap_dist scenario_map (StrV ''A'') (StrV ''B'') True = Inr (Dist 2)"
    by (simp add: DistanceMap_dist_def scenario_map_def scenario_id_map matrix_at_def)
  have ids: "id_map_i scenario_map (StrV (py_str (StrV ''A''))) \<noteq> None"
    "id_map_i scenario_map (StrV (py_str (StrV ''B''))) \<noteq> None"
    by (simp_all add: scenario_map_def scenario_id_map)
  from symmetric_map_symmetric [OF scenario_ranges_ok] scenario_distances scenario_init ids
  have "DistanceMap_dist scenario_map (StrV ''A'') (StrV ''B'') True =
        DistanceMap_dist scenario_map (StrV ''B'') (StrV ''A'') True"
    by auto
  with ab scenario_ranges_ok scenario_distances scenario_init show ?thesis by simp
qed

subsection \<open>The identifier mappings\<close>

lemma id_map_of_Nil: "id_map_of [] = Map.empty"
  by (simp add: id_map_of_def)

lemma id_map_of_snoc: "id_map_of (xs @ [v]) = (id_map_of xs)(v \<mapsto> length xs)"
  by (simp add: id_map_of_def enumerate_append_eq)

lemma id_map_of_last:
  "k < length ids \<Longrightarrow> \<forall>k'<length ids. k < k' \<longrightarrow> ids ! k' \<noteq> ids ! k \<Longrightarrow>
   id_map_of ids (ids ! k) = Some k"
proof (induction ids rule: rev_induct)
  case Nil
  then show ?case by simp
next
  case (snoc v xs)
  show ?case
  proof (cases "k = length xs")
    case True
    then show ?thesis by (simp add: id_map_of_snoc)
  next
    case False
    with snoc.prems(1) have k: "k < length xs" by simp
    have "(xs @ [v]) ! length xs \<noteq> (xs @ [v]) ! k"
      using snoc.prems(2) k by (metis length_append_singleton lessI)
    then have ne: "v \<noteq> xs ! k" using k by (simp add: nth_append)
    have "\<forall>k'<length xs. k < k' \<longrightarrow> xs ! k' \<noteq> xs ! k"
    proof (intro allI impI)
      fix k' assume "k' < length xs" "k < k'"
      with snoc.prems(2) k show "xs ! k' \<noteq> xs ! k"
        by (metis less_SucI length_append_singleton nth_append)
    qed
    from snoc.IH [OF k this] ne k show ?thesis
      by (simp add: id_map_of_snoc nth_append)
  qed
qed

lemma id_map_of_None: "id_map_of ids v = None \<longleftrightarrow> v \<notin> set ids"
  by (induction ids rule: rev_induct) (auto simp: id_map_of_snoc id_map_of_Nil)

text \<open>
  C9. When the \<open>id\<close> column of a residue table passed to the constructor holds a value
  several times, the mapping built at construction sends it to the index of its last
  occurrence, on either axis, and \<open>dist\<close> reads the matrix at that index.
\<close>

theorem id_map_last_wins:
  assumes "column_values tbl_i ''id'' = Inr ids_i" "column_values tbl_j ''id'' = Inr ids_j"
    and "k < length ids_i" "\<forall>k'<length ids_i. k < k' \<longrightarrow> ids_i ! k' \<noteq> ids_i ! k"
    and "l < length ids_j" "\<forall>l'<length ids_j. l < l' \<longrightarrow> ids_j ! l' \<noteq> ids_j ! l"
  shows "\<exists>dm. DistanceMap_init tbl_i tbl_j M s = Inr dm \<and>
           id_map_i dm (ids_i ! k) = Some k \<and> id_map_j dm (ids_j ! l) = Some l \<and>
           (\<forall>i j raise_na. ids_i ! k = StrV (py_str i) \<and> ids_j ! l = StrV (py_str j) \<longrightarrow>
              DistanceMap_dist dm i j raise_na = matrix_at M k l)"
proof -
  let ?dm = "\<lparr> residues_i = tbl_i, residues_j = tbl_j, dist_matrix = M, symmetric = s,
               id_map_i = id_map_of ids_i, id_map_j = id_map_of ids_j \<rparr>"
  have init: "DistanceMap_init tbl_i tbl_j M s = Inr ?dm"
    using assms(1,2) by (simp add: DistanceMap_init_def)
  have a: "id_map_i ?dm (ids_i ! k) = Some k"
    using id_map_of_last [OF assms(3,4)] by simp
  have b: "id_map_j ?dm (ids_j ! l) = Some l"
    using id_map_of_last [OF assms(5,6)] by simp
  have "DistanceMap_dist ?dm i j raise_na = matrix_at M k l"
    if "ids_i ! k = StrV (py_str i) \<and> ids_j ! l = StrV (py_str j)" for i j raise_na
    using that a b by (simp add: DistanceMap_dist_def)
  with init a b show ?thesis by blast
qed

text \<open>
  In the table with ids 7, 8, 7 the identifier 7 is mapped to row 2, and \<open>dist(7, 8)\<close>
  reads the entry \<open>[2, 1]\<close>.
\<close>

theorem id_map_last_wins_witness:
  "column_values duplicate_residues ''id'' = Inr [StrV ''7'', StrV ''8'', StrV ''7''] \<and>
   (\<exists>dm. DistanceMap_init duplicate_residues duplicate_residues duplicate_matrix True = Inr dm \<and>
      id_map_i dm (StrV ''7'') = Some 2 \<and> id_map_j dm (StrV ''8'') = Some 1 \<and>
      DistanceMap_dist dm (IntV 7) (IntV 8) True = Inr (Dist 3))"
proof -
  let ?ids = "[StrV ''7'', StrV ''8'', StrV ''7'']"
  have col: "column_values duplicate_residues ''id'' = Inr ?ids"
    by (simp add: column_values_def duplicate_residues_def)
  have k: "(2::nat) < length ?ids" "\<forall>k'<length ?ids. 2 < k' \<longrightarrow> ?ids ! k' \<noteq> ?ids ! 2"
    by auto
  have l: "(1::nat) < length ?ids" "\<forall>l'<length ?ids. 1 < l' \<longrightarrow> ?ids ! l' \<noteq> ?ids ! 1"
    by (auto simp: less_Suc_eq numeral_3_eq_3)
  have s: "py_str (IntV 7) = ''7''" "py_str (IntV 8) = ''8''" by (simp_all add: str_int_def)
  from id_map_last_wins [OF col col k l, of duplicate_matrix True]
  obtain dm where dm:
    "DistanceMap_init duplicate_residues duplicate_residues duplicate_matrix True = Inr dm"
    "id_map_i dm (?ids ! 2) = Some 2" "id_map_j dm (?ids ! 1) = Some 1"
    "\<forall>i j raise_na. ?ids ! 2 = StrV (py_str i) \<and> ?ids ! 1 = StrV (py_str j) \<longrightarrow>
        DistanceMap_dist dm i j raise_na = matrix_at duplicate_matrix 2 1"
    by blast
  from dm(4) s have "DistanceMap_dist dm (IntV 7) (IntV 8) True = matrix_at duplicate_matrix 2 1"
    by simp
  then have "DistanceMap_dist dm (IntV 7) (IntV 8) True = Inr (Dist 3)"
    by (simp add: matrix_at_def duplicate_matrix_def)
  with dm(1-3) col show ?thesis by auto
qed

subsection \<open>Lookups\<close>

text \<open>
  C5. When the string form of \<open>i\<close> is not a key of the first axis's mapping, or the string
  form of \<open>j\<close> is not a key of the second axis's mapping, \<open>dist(i, j, raise_na=True)\<close> raises
  \<open>KeyError\<close> and \<open>dist(i, j, raise_na=False)\<close> returns the not-a-number sentinel; when both
  are keys, \<open>dist\<close> returns \<open>dist_matrix[index_i, index_j]\<close>.
\<close>

theorem dist_lookup_contract:
  "(id_map_i dm (StrV (py_str i)) = None \<or> id_map_j dm (StrV (py_str j)) = None \<longrightarrow>
      (\<exists>msg. DistanceMap_dist dm i j True = Inl (KeyError msg)) \<and> DistanceMap_dist dm i j False = Inr NaN) \<and>
   (\<forall>a b. id_map_i dm (StrV (py_str i)) = Some a \<and> id_map_j dm (StrV (py_str j)) = Some b \<longrightarrow>
      DistanceMap_dist dm i j raise_na = matrix_at (dist_matrix dm) a b \<and>
      (a < length (dist_matrix dm) \<and> b < length (dist_matrix dm ! a) \<longrightarrow>
         DistanceMap_dist dm i j raise_na = Inr (Dist (dist_matrix dm ! a ! b))))"
  by (auto simp: DistanceMap_dist_def matrix_at_def Let_def split: option.splits)

text \<open>
  In the scenario the identifier 5 is unknown on the first axis, and \<open>dist(A, B)\<close> is the
  entry \<open>[0, 1]\<close>.
\<close>

theorem dist_lookup_contract_witness:
  "id_map_i scenario_map (StrV (py_str (IntV 5))) = None \<and>
   DistanceMap_dist scenario_map (IntV 5) (StrV ''A'') True =
     Inl (KeyError ''5 not contained in first axis of distance map'') \<and>
   DistanceMap_dist scenario_map (IntV 5) (StrV ''A'') False = Inr NaN \<and>
   id_map_i scenario_map (StrV (py_str (StrV ''A''))) = Some 0 \<and>
   id_map_j scenario_map (StrV (py_str (StrV ''B''))) = Some 1 \<and>
   DistanceMap_dist scenario_map (StrV ''A'') (StrV ''B'') True = Inr (Dist 2)"
proof -
  have five: "str_int 5 = ''5''" by (simp add: str_int_def)
  have none: "id_map_i scenario_map (StrV (py_str (IntV 5))) = None"
    by (simp add: five scenario_map_def id_map_of_None)
  have some: "id_map_i scenario_map (StrV (py_str (StrV ''A''))) = Some 0"
    "id_map_j scenario_map (StrV (py_str (StrV ''B''))) = Some 1"
    by (simp_all add: scenario_map_def scenario_id_map)
  have m: "dist_matrix scenario_map = [[0, 2], [2, 0]]" by (simp add: scenario_map_def)
  from dist_lookup_contract [of scenario_map "IntV 5" "StrV ''A''"] none
  have miss: "(\<exists>msg. DistanceMap_dist scenario_map (IntV 5) (StrV ''A'') True = Inl (KeyError msg)) \<and>
      DistanceMap_dist scenario_map (IntV 5) (StrV ''A'') False = Inr NaN" by blast
  have msg: "DistanceMap_dist scenario_map (IntV 5) (StrV ''A'') True =
     Inl (KeyError ''5 not contained in first axis of distance map'')"
    using none by (simp add: DistanceMap_dist_def five)
  from dist_lookup_contract [of scenario_map "StrV ''A''" "StrV ''B''" True] some m
  have hit: "DistanceMap_dist scenario_map (StrV ''A'') (StrV ''B'') True = Inr (Dist 2)"
    by (simp add: matrix_at_def)
  from none miss msg some hit show ?thesis by simp
qed

text \<open>
  C7. Subscript access \<open>map[i, j]\<close> is \<open>dist(i, j, raise_na=True)\<close>: it never returns the
  not-a-number sentinel and raises \<open>KeyError\<close> when either identifier is missing.
\<close>

theorem getitem_raises:
  "getitem dm (i, j) = DistanceMap_dist dm i j True \<and> getitem dm (i, j) \<noteq> Inr NaN \<and>
   (id_map_i dm (StrV (py_str i)) = None \<or> id_map_j dm (StrV (py_str j)) = None \<longrightarrow>
      (\<exists>msg. getitem dm (i, j) = Inl (KeyError msg)))"
  by (auto simp: getitem_def DistanceMap_dist_def matrix_at_def Let_def split: option.splits)

text \<open>In the scenario \<open>map[A, Z]\<close> raises and \<open>map[A, B]\<close> is 2.\<close>

theorem getitem_raises_witness:
  "id_map_j scenario_map (StrV (py_str (StrV ''Z''))) = None \<and>
   getitem scenario_map (StrV ''A'', StrV ''Z'') =
     Inl (KeyError ''Z not contained in second axis of distance map'') \<and>
   getitem scenario_map (StrV ''A'', StrV ''Z'') = DistanceMap_dist scenario_map (StrV ''A'') (StrV ''Z'') True \<and>
   getitem scenario_map (StrV ''A'', StrV ''B'') = Inr (Dist 2)"
proof -
  have none: "id_map_j scenario_map (StrV (py_str (StrV ''Z''))) = None"
    by (simp add: scenario_map_def scenario_id_map)
  have d: "DistanceMap_dist scenario_map (StrV ''A'') (StrV ''Z'') True =
     Inl (KeyError ''Z not contained in second axis of distance map'')"
    "DistanceMap_dist scenario_map (StrV ''A'') (StrV ''B'') True = Inr (Dist 2)"
    by (simp_all add: DistanceMap_dist_def scenario_map_def scenario_id_map matrix_at_def)
  from getitem_raises [of scenario_map "StrV ''A''" "StrV ''Z''"]
    getitem_raises [of scenario_map "StrV ''A''" "StrV ''B''"] none d
  show ?thesis by simp
qed

subsection \<open>The unimplemented methods\<close>

text \<open>
  C8. A call of \<open>contacts\<close> raises \<open>NotImplementedError\<close>, a call of \<open>aggregate\<close> raises as
  well (\<open>TypeError\<close> on an instance, \<open>NotImplementedError\<close> with no argument), and neither
  changes the map.
\<close>

theorem stubs_raise:
  "contacts dm max_dist min_dist = (Inl NotImplementedError, dm) \<and>
   aggregate_on dm args = (Inl TypeError, dm) \<and>
   aggregate 0 = Inl NotImplementedError \<and>
   (\<exists>e. aggregate n_args = Inl e)"
  by (simp add: contacts_def aggregate_on_def aggregate_def)

subsection \<open>Construction from coordinates\<close>

text \<open>
  When every row label of the atom table is a position in the table, as with the default
  labels \<open>0, 1, ...\<close>, the atom ranges \<open>_extract_coords\<close> returns lie inside the coordinate
  array.
\<close>

lemma group_range_labels:
  assumes "group_range C k = Some r"
  shows "\<exists>a \<in> set C. \<exists>b \<in> set C. r = (atom_label a, atom_label b)"
proof -
  from assms obtain a rest where f: "filter (\<lambda>a. residue_index a = k) C = a # rest"
    and r: "r = (atom_label a, atom_label (last (a # rest)))"
    by (auto simp: group_range_def split: list.splits)
  have "a \<in> set (filter (\<lambda>a. residue_index a = k) C)"
    "last (a # rest) \<in> set (filter (\<lambda>a. residue_index a = k) C)"
    unfolding f by (simp, rule last_in_set, simp)
  then have "a \<in> set C" "last (a # rest) \<in> set C" by simp_all
  with r show ?thesis by blast
qed

lemma extract_coords_ranges_ok:
  assumes "\<forall>a \<in> set C. 0 \<le> atom_label a \<and> atom_label a < int (length C)"
    and "extract_coords C = (r, c)"
  shows "ranges_ok r c"
proof -
  from assms(2) have r: "r = List.map_filter (group_range C) (sort (remdups (map residue_index C)))"
    and c: "length c = length C"
    by (auto simp: extract_coords_def Let_def)
  show ?thesis
    unfolding ranges_ok_def
  proof
    fix p assume "p \<in> set r"
    then obtain k where "group_range C k = Some p"
      unfolding r by (auto simp: List.map_filter_def)
    from group_range_labels [OF this] assms(1) c
    show "0 \<le> fst p \<and> snd p < int (length c)" by auto
  qed
qed

lemma from_coords_None:
  assumes "extract_coords (chain_coords (chain_i :: chain)) = (r_i, c_i)"
  shows "from_coords chain_i None =
           (case distances r_i c_i r_i c_i True of
              Inl e \<Rightarrow> Inl e
            | Inr D \<Rightarrow> DistanceMap_init (chain_residues chain_i) (chain_residues chain_i) D True)"
  using assms by (simp add: from_coords_def)

lemma from_coords_Some:
  assumes "extract_coords (chain_coords chain_i) = (r_i, c_i)"
    and "extract_coords (chain_coords (chain_j :: chain)) = (r_j, c_j)"
  shows "from_coords chain_i (Some chain_j) =
           (case distances r_i c_i r_j c_j False of
              Inl e \<Rightarrow> Inl e
            | Inr D \<Rightarrow> DistanceMap_init (chain_residues chain_i) (chain_residues chain_j) D False)"
  using assms by (simp add: from_coords_def)

lemma init_fields:
  assumes "DistanceMap_init t_i t_j D s = Inr dm"
  shows "residues_i dm = t_i" "residues_j dm = t_j" "dist_matrix dm = D" "symmetric dm = s"
  using assms by (auto simp: DistanceMap_init_def split: sum.splits)

lemma init_ok:
  assumes "column_values t_i ''id'' = Inr ids_i" "column_values t_j ''id'' = Inr ids_j"
  shows "\<exists>dm. DistanceMap_init t_i t_j D s = Inr dm"
  using assms by (simp add: DistanceMap_init_def)

text \<open>
  C6. For a chain whose atom ranges lie inside its coordinate array and whose residue table
  has an \<open>id\<close> column, \<open>from_coords(chain_i)\<close> returns a map with \<open>symmetric == True\<close>, both
  residue tables that of \<open>chain_i\<close> and the matrix the kernel computes from the coordinates of
  \<open>chain_i\<close> on both axes; with a second such chain, \<open>from_coords(chain_i, chain_j)\<close> returns
  a map with \<open>symmetric == False\<close>.
\<close>

theorem from_coords_symmetric_flag:
  assumes "extract_coords (chain_coords chain_i) = (r_i, c_i)" "ranges_ok r_i c_i"
    and "column_values (chain_residues chain_i) ''id'' = Inr ids_i"
  shows "(\<exists>dm D. from_coords chain_i None = Inr dm \<and> symmetric dm \<and>
            residues_i dm = chain_residues chain_i \<and> residues_j dm = chain_residues chain_i \<and>
            distances r_i c_i r_i c_i True = Inr D \<and> dist_matrix dm = D) \<and>
         (\<forall>(chain_j :: chain) r_j c_j ids_j.
            extract_coords (chain_coords chain_j) = (r_j, c_j) \<and> ranges_ok r_j c_j \<and>
            column_values (chain_residues chain_j) ''id'' = Inr ids_j \<longrightarrow>
            (\<exists>dm D. from_coords chain_i (Some chain_j) = Inr dm \<and> \<not> symmetric dm \<and>
               residues_i dm = chain_residues chain_i \<and>
               residues_j dm = chain_residues chain_j \<and>
               distances r_i c_i r_j c_j False = Inr D \<and> dist_matrix dm = D))"
proof (intro conjI allI impI)
  from distances_final [OF assms(2) assms(2), of True]
  obtain D where D: "distances r_i c_i r_i c_i True = Inr D" by auto
  from init_ok [OF assms(3) assms(3)]
  obtain dm where dm:
    "DistanceMap_init (chain_residues chain_i) (chain_residues chain_i) D True = Inr dm"
    by blast
  have "from_coords chain_i None = Inr dm"
    using from_coords_None [OF assms(1)] D dm by simp
  with init_fields [OF dm] D
  show "\<exists>dm D. from_coords chain_i None = Inr dm \<and> symmetric dm \<and>
            residues_i dm = chain_residues chain_i \<and> residues_j dm = chain_residues chain_i \<and>
            distances r_i c_i r_i c_i True = Inr D \<and> dist_matrix dm = D"
    by auto
next
  fix chain_j :: chain and r_j c_j ids_j
  assume j: "extract_coords (chain_coords chain_j) = (r_j, c_j) \<and> ranges_ok r_j c_j \<and>
            column_values (chain_residues chain_j) ''id'' = Inr ids_j"
  from distances_final [OF assms(2), of r_j c_j False] j
  obtain D where D: "distances r_i c_i r_j c_j False = Inr D" by auto
  from init_ok [OF assms(3), of "chain_residues chain_j" ids_j D False] j
  obtain dm where dm:
    "DistanceMap_init (chain_residues chain_i) (chain_residues chain_j) D False = Inr dm"
    by blast
  have "from_coords chain_i (Some chain_j) = Inr dm"
    using from_coords_Some [OF assms(1), of chain_j r_j c_j] j D dm by simp
  with init_fields [OF dm] D
  show "\<exists>dm D. from_coords chain_i (Some chain_j) = Inr dm \<and> \<not> symmetric dm \<and>
               residues_i dm = chain_residues chain_i \<and>
               residues_j dm = chain_residues chain_j \<and>
               distances r_i c_i r_j c_j False = Inr D \<and> dist_matrix dm = D"
    by auto
qed

lemma scenario_extract:
  "extract_coords (chain_coords scenario_chain) = (scenario_ranges, scenario_coords)"
  by (simp add: extract_coords_def scenario_chain_def group_range_def List.map_filter_def
      scenario_ranges_def scenario_coords_def)

lemma single_extract:
  "extract_coords (chain_coords (single_atom_chain p name)) = ([(0, 0)], [p])"
  by (simp add: extract_coords_def single_atom_chain_def group_range_def List.map_filter_def)

text \<open>
  The scenario chain alone gives \<open>scenario_map\<close>, which is symmetric; with a second chain of
  one atom the map is not symmetric.
\<close>

theorem from_coords_symmetric_flag_witness:
  "extract_coords (chain_coords scenario_chain) = (scenario_ranges, scenario_coords) \<and>
   ranges_ok scenario_ranges scenario_coords \<and>
   column_values (chain_residues scenario_chain) ''id'' = Inr [StrV ''A'', StrV ''B''] \<and>
   from_coords scenario_chain None = Inr scenario_map \<and>
   symmetric scenario_map \<and>
   (\<exists>dm. from_coords scenario_chain (Some (single_atom_chain (0, 0, 4) ''C'')) = Inr dm \<and>
      \<not> symmetric dm \<and> residues_j dm = single_residue ''C'')"
proof -
  have col: "column_values (chain_residues scenario_chain) ''id'' = Inr [StrV ''A'', StrV ''B'']"
    by (simp add: column_values_def scenario_chain_def scenario_residues_def)
  have colj: "column_values (chain_residues (single_atom_chain (0, 0, 4) ''C'')) ''id'' =
      Inr [StrV ''C'']"
    by (simp add: column_values_def single_atom_chain_def single_residue_def)
  have okj: "ranges_ok [(0, 0)] [(0, 0, 4)]" by (simp add: ranges_ok_def)
  have resj: "chain_residues (single_atom_chain (0, 0, 4) ''C'') = single_residue ''C''"
    by (simp add: single_atom_chain_def)
  note inst = from_coords_symmetric_flag [OF scenario_extract scenario_ranges_ok col]
  from inst obtain dm D where s: "from_coords scenario_chain None = Inr dm" "symmetric dm"
    "distances scenario_ranges scenario_coords scenario_ranges scenario_coords True = Inr D"
    by blast
  have "from_coords scenario_chain None = Inr scenario_map"
    using from_coords_None [OF scenario_extract] scenario_distances scenario_init
    by (simp add: scenario_chain_def)
  with s have sym: "from_coords scenario_chain None = Inr scenario_map \<and> symmetric scenario_map"
    by simp
  from inst single_extract [of "(0, 0, 4)" "''C''"] okj colj
  have "\<exists>dm. from_coords scenario_chain (Some (single_atom_chain (0, 0, 4) ''C'')) = Inr dm \<and>
      \<not> symmetric dm \<and> residues_j dm = chain_residues (single_atom_chain (0, 0, 4) ''C'')"
    by blast
  with sym scenario_extract scenario_ranges_ok col resj show ?thesis by simp
qed

subsection \<open>Storing and loading\<close>

lemma numbered_init:
  "DistanceMap_init numbered_residues numbered_residues [[0, 2], [2, 0]] True = Inr numbered_map"
  by (simp add: DistanceMap_init_def column_values_def numbered_residues_def numbered_map_def)

lemma parse_1_2: "parse_int ''1'' = Some 1" "parse_int ''2'' = Some 2"
  "parse_int ''0'' = Some 0"
  by (simp_all add: parse_int_def digit_val_def)

lemma numbered_csv:
  "to_csv numbered_residues = \<lparr> csv_index = [''0'', ''1''], csv_columns = [(''id'', [''1'', ''2''])] \<rparr>"
  by (simp add: to_csv_def numbered_residues_def str_int_def)

lemma numbered_files:
  "to_file numbered_map ''m'' Map.empty =
     [''m.csv'' \<mapsto> Csv (to_csv numbered_residues), ''m.npy'' \<mapsto> Npy [[0, 2], [2, 0]]]"
  by (simp add: to_file_def numbered_map_def)

lemma numbered_read:
  "read_csv (to_file numbered_map ''m'' Map.empty) ''m.csv'' from_file_dtype = Inr reloaded_residues"
  by (simp add: numbered_files numbered_csv read_csv_def read_column_def from_file_dtype_def
      numeric_cell_def parse_1_2 reloaded_residues_def)

text \<open>
  C4. Storing the map with the string identifiers \<open>1\<close> and \<open>2\<close> and loading it again gives a
  map with the same matrix and the same flag, but with the integers 1 and 2 in the \<open>id\<close>
  column: \<open>from_file\<close> asks \<open>read_csv\<close> for strings in \<open>seqres_id\<close> and \<open>coord_id\<close> only. The
  lookup \<open>dist(1, 2)\<close>, 2.0 on the stored map, raises \<open>KeyError\<close> on the loaded one.
\<close>

theorem from_file_reads_ids_as_integers:
  "DistanceMap_init numbered_residues numbered_residues [[0, 2], [2, 0]] True = Inr numbered_map \<and>
   from_file (to_file numbered_map ''m'' Map.empty) ''m'' = Inr reloaded_map \<and>
   column_values (residues_i numbered_map) ''id'' = Inr [StrV ''1'', StrV ''2''] \<and>
   column_values (residues_i reloaded_map) ''id'' = Inr [IntV 1, IntV 2] \<and>
   dist_matrix reloaded_map = dist_matrix numbered_map \<and>
   symmetric reloaded_map = symmetric numbered_map \<and>
   DistanceMap_dist numbered_map (IntV 1) (IntV 2) True = Inr (Dist 2) \<and>
   DistanceMap_dist reloaded_map (IntV 1) (IntV 2) True =
     Inl (KeyError ''1 not contained in first axis of distance map'')"
proof -
  have load: "np_load (to_file numbered_map ''m'' Map.empty) ''m.npy'' = Inr [[0, 2], [2, 0]]"
    by (simp add: numbered_files np_load_def)
  have init: "DistanceMap_init reloaded_residues reloaded_residues [[0, 2], [2, 0]] True =
      Inr reloaded_map"
    by (simp add: DistanceMap_init_def column_values_def reloaded_residues_def reloaded_map_def)
  have rt: "from_file (to_file numbered_map ''m'' Map.empty) ''m'' = Inr reloaded_map"
    using numbered_read load init by (simp add: from_file_def reloaded_residues_def)
  have cols: "column_values (residues_i numbered_map) ''id'' = Inr [StrV ''1'', StrV ''2'']"
    "column_values (residues_i reloaded_map) ''id'' = Inr [IntV 1, IntV 2]"
    by (simp_all add: column_values_def numbered_map_def numbered_residues_def
        reloaded_map_def reloaded_residues_def)
  have s: "str_int 1 = ''1''" "str_int 2 = ''2''" by (simp_all add: str_int_def)
  have d1: "DistanceMap_dist numbered_map (IntV 1) (IntV 2) True = Inr (Dist 2)"
    by (simp add: DistanceMap_dist_def numbered_map_def s id_map_of_def enumerate_eq_zip
        upt_rec matrix_at_def)
  have none: "id_map_of [IntV 1, IntV 2] (StrV ''1'') = None"
    by (simp add: id_map_of_None)
  have d2: "DistanceMap_dist reloaded_map (IntV 1) (IntV 2) True =
     Inl (KeyError ''1 not contained in first axis of distance map'')"
    by (simp add: DistanceMap_dist_def reloaded_map_def s none Let_def)
  from numbered_init rt cols d1 d2 show ?thesis
    by (simp add: numbered_map_def reloaded_map_def)
qed

end
